theory Spec2Isabelle
  imports Complex_Main
begin

section \<open>Calls, exceptions and external callables\<close>

text \<open>
  The module \<^verbatim>\<open>solo/utils/ffcv_pretrain_dataloader.py\<close> wraps callables of two
  external libraries.  A Python call either returns a value or raises, and it may
  change the world on the way (the random generator of an augmentation, the file
  system).  A call is therefore a function from the state before the call to an
  outcome and the state after it; \<open>Inl\<close> is a raised exception.
\<close>

datatype error =
    ValueError string
  | AssertionError
  | TypeError
  | IndexError
  | OtherError string

type_synonym ('a, 's) call = "'s \<Rightarrow> (error + 'a) \<times> 's"

text \<open>
  \<^verbatim>\<open>[f(i) for i in xs]\<close>: the elements are evaluated from left to right, each in
  the state its predecessor left; the first exception ends the comprehension.
\<close>

fun list_comp :: "('i \<Rightarrow> ('a, 's) call) \<Rightarrow> 'i list \<Rightarrow> ('a list, 's) call" where
  "list_comp f [] s = (Inr [], s)"
| "list_comp f (i # rest) s =
     (case f i s of
        (Inl e, s1) \<Rightarrow> (Inl e, s1)
      | (Inr y, s1) \<Rightarrow>
          (case list_comp f rest s1 of
             (Inl e, s2) \<Rightarrow> (Inl e, s2)
           | (Inr ys, s2) \<Rightarrow> (Inr (y # ys), s2)))"

text \<open>\<^verbatim>\<open>range(n)\<close> is \<open>0, \<dots>, n - 1\<close>, and empty when \<open>n \<le> 0\<close>.\<close>

definition py_range :: "int \<Rightarrow> int list" where
  "py_range n = [0..n - 1]"

section \<open>NCropAugmentation\<close>

record ('x, 'y, 's) NCropAugmentation =
  transform :: "'x \<Rightarrow> ('y, 's) call"
  num_crops :: int

definition NCropAugmentation_init ::
  "('x \<Rightarrow> ('y, 's) call) \<Rightarrow> int \<Rightarrow> ('x, 'y, 's) NCropAugmentation" where
  "NCropAugmentation_init t n = \<lparr>transform = t, num_crops = n\<rparr>"

text \<open>\<^verbatim>\<open>return [self.transform(x) for _ in range(self.num_crops)]\<close>\<close>

definition NCropAugmentation_call ::
  "('x, 'y, 's) NCropAugmentation \<Rightarrow> 'x \<Rightarrow> ('y list, 's) call" where
  "NCropAugmentation_call self x =
     list_comp (\<lambda>_. transform self x) (py_range (num_crops self))"

text \<open>
  The state in which the \<open>k\<close>-th application (counted from 0) of a transform to \<open>x\<close>
  starts, when the first starts in \<open>s\<close>.
\<close>

definition state_after :: "('x \<Rightarrow> ('y, 's) call) \<Rightarrow> 'x \<Rightarrow> nat \<Rightarrow> 's \<Rightarrow> 's" where
  "state_after t x k s = ((\<lambda>u. snd (t x u)) ^^ k) s"

section \<open>FullTransformPipeline\<close>

record ('x, 'y, 's) FullTransformPipeline =
  transforms :: "('x, 'y, 's) NCropAugmentation list"

definition FullTransformPipeline_init ::
  "('x, 'y, 's) NCropAugmentation list \<Rightarrow> ('x, 'y, 's) FullTransformPipeline" where
  "FullTransformPipeline_init ts = \<lparr>transforms = ts\<rparr>"

text \<open>
  The loop of \<^verbatim>\<open>FullTransformPipeline.__call__\<close>, with the list \<^verbatim>\<open>out\<close> so far:
  \<^verbatim>\<open>for transform in self.transforms: out.extend(transform(x))\<close>.
\<close>

fun extend_each ::
  "('x, 'y, 's) NCropAugmentation list \<Rightarrow> 'x \<Rightarrow> 'y list \<Rightarrow> ('y list, 's) call" where
  "extend_each [] x out s = (Inr out, s)"
| "extend_each (tr # rest) x out s =
     (case NCropAugmentation_call tr x s of
        (Inl e, s1) \<Rightarrow> (Inl e, s1)
      | (Inr ys, s1) \<Rightarrow> extend_each rest x (out @ ys) s1)"

definition FullTransformPipeline_call ::
  "('x, 'y, 's) FullTransformPipeline \<Rightarrow> 'x \<Rightarrow> ('y list, 's) call" where
  "FullTransformPipeline_call self x s = extend_each (transforms self) x [] s"

section \<open>prepare\_n\_crop\_transform\<close>

text \<open>
  The loop of \<^verbatim>\<open>prepare_n_crop_transform\<close>, with the list \<^verbatim>\<open>T\<close> so far:
  \<^verbatim>\<open>for transform, num_crops in zip(...): T.append(NCropAugmentation(transform, num_crops))\<close>.
\<close>

fun append_each ::
  "(('x \<Rightarrow> ('y, 's) call) \<times> int) list \<Rightarrow> ('x, 'y, 's) NCropAugmentation list
     \<Rightarrow> ('x, 'y, 's) NCropAugmentation list" where
  "append_each [] T = T"
| "append_each ((t, n) # rest) T = append_each rest (T @ [NCropAugmentation_init t n])"

text \<open>
  The \<^verbatim>\<open>assert\<close> on the two lengths comes first; a failed one raises
  \<^verbatim>\<open>AssertionError\<close> (assertions are enabled, as they are by default).  \<^verbatim>\<open>zip\<close>
  stops at the end of the shorter list.
\<close>

definition prepare_n_crop_transform ::
  "('x \<Rightarrow> ('y, 's) call) list \<Rightarrow> int list \<Rightarrow> error + ('x, 'y, 's) FullTransformPipeline" where
  "prepare_n_crop_transform ts num_crops_per_aug =
     (if length ts = length num_crops_per_aug
      then Inr (FullTransformPipeline_init (append_each (zip ts num_crops_per_aug) []))
      else Inl AssertionError)"

text \<open>Building the pipeline of \<open>ts\<close> and \<open>ns\<close> and calling it on \<open>x\<close>.\<close>

definition n_crop_transform_call ::
  "('x \<Rightarrow> ('y, 's) call) list \<Rightarrow> int list \<Rightarrow> 'x \<Rightarrow> ('y list, 's) call" where
  "n_crop_transform_call ts ns x s =
     (case prepare_n_crop_transform ts ns of
        Inl e \<Rightarrow> (Inl e, s)
      | Inr p \<Rightarrow> FullTransformPipeline_call p x s)"

text \<open>
  What the pipeline is said to return: the outputs of
  \<^verbatim>\<open>NCropAugmentation(T[i], N[i])(x)\<close> for \<open>i\<close> over the list, in this order,
  concatenated.
\<close>

definition crops_concatenated ::
  "('x \<Rightarrow> ('y, 's) call) list \<Rightarrow> int list \<Rightarrow> 'x \<Rightarrow> ('y list, 's) call" where
  "crops_concatenated T N x s =
     (case list_comp (\<lambda>i. NCropAugmentation_call (NCropAugmentation_init (T ! i) (N ! i)) x)
             [0..<length T] s of
        (Inl e, s1) \<Rightarrow> (Inl e, s1)
      | (Inr yss, s1) \<Rightarrow> (Inr (concat yss), s1))"

section \<open>dataset\_with\_index\<close>

text \<open>
  A dataset class is given by its \<^verbatim>\<open>__getitem__\<close>, whose item is a tuple: the list of
  its components.  \<^verbatim>\<open>DatasetWithIndex.__getitem__\<close> is
  \<^verbatim>\<open>data = super().__getitem__(index); return (index, *data)\<close>.
\<close>

definition dataset_with_index ::
  "('v \<Rightarrow> ('v list, 's) call) \<Rightarrow> 'v \<Rightarrow> ('v list, 's) call" where
  "dataset_with_index super_getitem index s =
     (case super_getitem index s of
        (Inl e, s1) \<Rightarrow> (Inl e, s1)
      | (Inr data, s1) \<Rightarrow> (Inr (index # data), s1))"

section \<open>CustomDatasetWithoutLabels\<close>

text \<open>A \<^verbatim>\<open>pathlib\<close> path: \<^verbatim>\<open>Path(root)\<close>, or a path \<^verbatim>\<open>/\<close> a name.\<close>

datatype path = Path string | PathDiv path string

record ('v, 's) CustomDatasetWithoutLabels =
  root :: path
  transform :: "('v \<Rightarrow> ('v, 's) call) option"
  images :: "string list"

text \<open>
  \<^verbatim>\<open>xs[i]\<close> on a Python list: a negative index counts from the end, an index out of
  range raises \<^verbatim>\<open>IndexError\<close>.
\<close>

definition list_getitem :: "'a list \<Rightarrow> int \<Rightarrow> error + 'a" where
  "list_getitem xs i =
     (if 0 \<le> i \<and> i < int (length xs) then Inr (xs ! nat i)
      else if i < 0 \<and> - int (length xs) \<le> i then Inr (xs ! nat (int (length xs) + i))
      else Inl IndexError)"

text \<open>
  \<^verbatim>\<open>__init__\<close>; \<open>listdir\<close> is \<^verbatim>\<open>os.listdir\<close>, which reads the file system and may
  raise.
\<close>

definition CustomDatasetWithoutLabels_init ::
  "(string \<Rightarrow> (string list, 's) call) \<Rightarrow> string \<Rightarrow> ('v \<Rightarrow> ('v, 's) call) option
     \<Rightarrow> (('v, 's) CustomDatasetWithoutLabels, 's) call" where
  "CustomDatasetWithoutLabels_init listdir r t s =
     (case listdir r s of
        (Inl e, s1) \<Rightarrow> (Inl e, s1)
      | (Inr names, s1) \<Rightarrow> (Inr \<lparr>root = Path r, transform = t, images = names\<rparr>, s1))"

text \<open>
  \<^verbatim>\<open>__getitem__\<close>; \<open>open_rgb\<close> is \<^verbatim>\<open>Image.open(path).convert("RGB")\<close>.
\<close>

definition CustomDatasetWithoutLabels_getitem ::
  "(path \<Rightarrow> ('v, 's) call) \<Rightarrow> ('v, 's) CustomDatasetWithoutLabels \<Rightarrow> int
     \<Rightarrow> ('v \<times> int, 's) call" where
  "CustomDatasetWithoutLabels_getitem open_rgb self index s =
     (case list_getitem (images self) index of
        Inl e \<Rightarrow> (Inl e, s)
      | Inr name \<Rightarrow>
          (case open_rgb (PathDiv (root self) name) s of
             (Inl e, s1) \<Rightarrow> (Inl e, s1)
           | (Inr x, s1) \<Rightarrow>
               (case transform self of
                  None \<Rightarrow> (Inr (x, - 1), s1)
                | Some t \<Rightarrow>
                    (case t x s1 of
                       (Inl e, s2) \<Rightarrow> (Inl e, s2)
                     | (Inr y, s2) \<Rightarrow> (Inr (y, - 1), s2)))))"

definition CustomDatasetWithoutLabels_len :: "('v, 's) CustomDatasetWithoutLabels \<Rightarrow> int" where
  "CustomDatasetWithoutLabels_len self = int (length (images self))"

text \<open>A directory and an image reader for examples.\<close>

definition example_listdir :: "string \<Rightarrow> (string list, nat) call" where
  "example_listdir r s = (Inr [''a.png'', ''b.png'', ''c.png''], s)"

definition example_open :: "path \<Rightarrow> (nat, nat) call" where
  "example_open p s = (Inr 7, Suc s)"

section \<open>imagenet\_pipelines\<close>

text \<open>
  The values handed to the pipeline factory are Python values, passed on as they
  are.  The steps of a pipeline are objects of the two external libraries (and of
  \<^verbatim>\<open>solo.utils.pretrain_dataloader\<close>): a step is the constructor call that made
  it, with its arguments.
\<close>

datatype pyval = PyFloat real | PyInt int | PyBool bool | PyStr string | PyNone

datatype np_type = np_float16

datatype step =
    RandomResizedCropRGBImageDecoder "pyval \<times> pyval" "pyval \<times> pyval"
  | RandomApply "step list" pyval
  | ColorJitter pyval pyval pyval pyval
  | RandomGrayscale pyval
  | GaussianBlur
  | Solarization
  | RandomHorizontalFlip pyval
  | ToTensor
  | ToDevice pyval bool
  | ToTorchImage
  | NormalizeImage "real \<times> real \<times> real" "real \<times> real \<times> real" np_type
  | IntDecoder
  | Squeeze

text \<open>The class of a step.\<close>

fun step_name :: "step \<Rightarrow> string" where
  "step_name (RandomResizedCropRGBImageDecoder _ _) = ''RandomResizedCropRGBImageDecoder''"
| "step_name (RandomApply _ _) = ''RandomApply''"
| "step_name (ColorJitter _ _ _ _) = ''ColorJitter''"
| "step_name (RandomGrayscale _) = ''RandomGrayscale''"
| "step_name GaussianBlur = ''GaussianBlur''"
| "step_name Solarization = ''Solarization''"
| "step_name (RandomHorizontalFlip _) = ''RandomHorizontalFlip''"
| "step_name ToTensor = ''ToTensor''"
| "step_name (ToDevice _ _) = ''ToDevice''"
| "step_name ToTorchImage = ''ToTorchImage''"
| "step_name (NormalizeImage _ _ _) = ''NormalizeImage''"
| "step_name IntDecoder = ''IntDecoder''"
| "step_name Squeeze = ''Squeeze''"

text \<open>
  The constructors belong to the libraries, and a constructor may reject its
  arguments.  The libraries are a parameter: for each constructor call, the
  exception it raises, or \<open>None\<close> when it returns its object.
\<close>

type_synonym library = "step \<Rightarrow> error option"

definition construct :: "library \<Rightarrow> step \<Rightarrow> error + step" where
  "construct lib c = (case lib c of None \<Rightarrow> Inr c | Some e \<Rightarrow> Inl e)"

text \<open>Sequencing: an exception ends the evaluation, a value goes on to the rest.\<close>

definition and_then :: "error + 'a \<Rightarrow> ('a \<Rightarrow> error + 'b) \<Rightarrow> error + 'b" where
  "and_then r k = (case r of Inl e \<Rightarrow> Inl e | Inr v \<Rightarrow> k v)"

text \<open>The parameters of \<^verbatim>\<open>imagenet_pipelines\<close>, bound.\<close>

record imagenet_args =
  brightness :: pyval
  contrast :: pyval
  saturation :: pyval
  hue :: pyval
  color_jitter_prob :: pyval
  gray_scale_prob :: pyval
  horizontal_flip_prob :: pyval
  gaussian_prob :: pyval
  solarization_prob :: pyval
  min_scale :: pyval
  max_scale :: pyval
  crop_size :: pyval
  device :: pyval

text \<open>
  The two list displays are evaluated element by element, from left to right, an
  argument before the call that takes it; the first constructor that raises ends
  \<^verbatim>\<open>imagenet_pipelines\<close>.  A dictionary is the list of its items, in insertion order.
\<close>

definition imagenet_pipelines ::
  "library \<Rightarrow> imagenet_args \<Rightarrow> error + (string \<times> step list) list" where
  "imagenet_pipelines lib a =
     and_then (construct lib (RandomResizedCropRGBImageDecoder
                 (crop_size a, crop_size a) (min_scale a, max_scale a))) (\<lambda>decoder.
     and_then (construct lib (ColorJitter (brightness a) (contrast a) (saturation a) (hue a)))
       (\<lambda>jitter.
     and_then (construct lib (RandomApply [jitter] (color_jitter_prob a))) (\<lambda>random_jitter.
     and_then (construct lib (RandomGrayscale (gray_scale_prob a))) (\<lambda>grayscale.
     and_then (construct lib GaussianBlur) (\<lambda>blur.
     and_then (construct lib (RandomApply [blur] (gaussian_prob a))) (\<lambda>random_blur.
     and_then (construct lib Solarization) (\<lambda>solarization.
     and_then (construct lib (RandomApply [solarization] (solarization_prob a)))
       (\<lambda>random_solarization.
     and_then (construct lib (RandomHorizontalFlip (horizontal_flip_prob a))) (\<lambda>flip.
     and_then (construct lib ToTensor) (\<lambda>to_tensor.
     and_then (construct lib (ToDevice (device a) True)) (\<lambda>to_device.
     and_then (construct lib ToTorchImage) (\<lambda>to_torch_image.
     and_then (construct lib
                 (NormalizeImage (0.485, 0.456, 0.406) (0.228, 0.224, 0.225) np_float16))
       (\<lambda>normalize.
     and_then (construct lib IntDecoder) (\<lambda>int_decoder.
     and_then (construct lib ToTensor) (\<lambda>label_to_tensor.
     and_then (construct lib Squeeze) (\<lambda>squeeze.
     and_then (construct lib (ToDevice (device a) True)) (\<lambda>label_to_device.
       Inr [(''image'',
               [decoder, random_jitter, grayscale, random_blur, random_solarization, flip,
                to_tensor, to_device, to_torch_image, normalize]),
            (''label'', [int_decoder, label_to_tensor, squeeze, label_to_device])]
     )))))))))))))))))"

text \<open>The constructor calls of \<^verbatim>\<open>imagenet_pipelines\<close>, in the order they are made.\<close>

definition constructor_calls :: "imagenet_args \<Rightarrow> step list" where
  "constructor_calls a =
     [RandomResizedCropRGBImageDecoder (crop_size a, crop_size a) (min_scale a, max_scale a),
      ColorJitter (brightness a) (contrast a) (saturation a) (hue a),
      RandomApply [ColorJitter (brightness a) (contrast a) (saturation a) (hue a)]
        (color_jitter_prob a),
      RandomGrayscale (gray_scale_prob a),
      GaussianBlur,
      RandomApply [GaussianBlur] (gaussian_prob a),
      Solarization,
      RandomApply [Solarization] (solarization_prob a),
      RandomHorizontalFlip (horizontal_flip_prob a),
      ToTensor,
      ToDevice (device a) True,
      ToTorchImage,
      NormalizeImage (0.485, 0.456, 0.406) (0.228, 0.224, 0.225) np_float16,
      IntDecoder,
      ToTensor,
      Squeeze,
      ToDevice (device a) True]"

text \<open>The exception of the first call of a list that raises.\<close>

fun first_error :: "library \<Rightarrow> step list \<Rightarrow> error option" where
  "first_error lib [] = None"
| "first_error lib (c # cs) =
     (case lib c of Some e \<Rightarrow> Some e | None \<Rightarrow> first_error lib cs)"





section \<open>prepare\_transform\<close>


text \<open>
  For examples: a library whose constructors never raise; a library whose
  \<^verbatim>\<open>ColorJitter\<close> rejects a hue that is no number from 0 to 0.5; keyword arguments
  with the four required ones and a crop size; the same with a hue of 0.6.
\<close>

definition permissive_library :: library where
  "permissive_library c = None"

fun checking_library :: library where
  "checking_library (ColorJitter b c s (PyFloat h)) =
     (if 0 \<le> h \<and> h \<le> 0.5 then None else Some (ValueError ''hue out of range''))"
| "checking_library (ColorJitter b c s (PyInt h)) =
     (if h = 0 then None else Some (ValueError ''hue out of range''))"
| "checking_library (ColorJitter b c s h) = Some TypeError"
| "checking_library c = None"



definition example_args :: imagenet_args where
  "example_args =
     \<lparr>brightness = PyFloat 0.4, contrast = PyFloat 0.4, saturation = PyFloat 0.2,
      hue = PyFloat 0.1, color_jitter_prob = PyFloat 0.8, gray_scale_prob = PyFloat 0.2,
      horizontal_flip_prob = PyFloat 0.5, gaussian_prob = PyFloat 0.5,
      solarization_prob = PyFloat 0.0, min_scale = PyFloat 0.08, max_scale = PyFloat 1.0,
      crop_size = PyInt 224, device = PyInt 0\<rparr>"

section \<open>prepare\_dataloader\<close>

text \<open>The members of the loader's \<^verbatim>\<open>OrderOption\<close> that the module names.\<close>

datatype OrderOption = RANDOM | QUASI_RANDOM

text \<open>The arguments of a call of the external \<^verbatim>\<open>Loader\<close> constructor.\<close>

record 'p Loader_args =
  fname :: string
  batch_size :: int
  num_workers :: int
  order :: OrderOption
  os_cache :: bool
  drop_last :: bool
  pipelines :: 'p
  distributed :: bool

text \<open>An optional argument: the value passed, or the default of the signature.\<close>

definition arg_or :: "'a option \<Rightarrow> 'a \<Rightarrow> 'a" where
  "arg_or passed dflt = (case passed of None \<Rightarrow> dflt | Some v \<Rightarrow> v)"

text \<open>
  \<open>Loader\<close> is the external constructor; what it returns, or whether it raises, is
  its own business.
\<close>

definition prepare_dataloader ::
  "('p Loader_args \<Rightarrow> 'l) \<Rightarrow> string \<Rightarrow> 'p \<Rightarrow> int option \<Rightarrow> int option \<Rightarrow> bool option
     \<Rightarrow> bool option \<Rightarrow> 'l" where
  "prepare_dataloader Loader train_ffcv_dataset pipes batch_size_arg num_workers_arg
       distributed_arg fit_mem_arg =
     (let bs = arg_or batch_size_arg 64;
          nw = arg_or num_workers_arg 4;
          dist = arg_or distributed_arg False;
          fit_mem = arg_or fit_mem_arg False;
          ord = (if dist then RANDOM else QUASI_RANDOM);
          train_loader =
            Loader \<lparr>fname = train_ffcv_dataset, batch_size = bs, num_workers = nw,
                    order = ord, os_cache = fit_mem, drop_last = True,
                    pipelines = pipes, distributed = dist\<rparr>
      in train_loader)"

text \<open>A dataset of three items for examples, and a dataset without labels.\<close>

definition example_getitem :: "nat \<Rightarrow> (nat list, nat) call" where
  "example_getitem i s = (if i < 3 then (Inr [10 * i, 1], s) else (Inl IndexError, s))"

definition example_dataset :: "(nat, nat) CustomDatasetWithoutLabels" where
  "example_dataset =
     \<lparr>root = Path ''data'', transform = None, images = [''a.png'', ''b.png'', ''c.png'']\<rparr>"

text \<open>A transform for examples: it returns its input and counts its calls.\<close>

definition counting_transform :: "nat \<Rightarrow> (nat, nat) call" where
  "counting_transform x s = (Inr (x + s), Suc s)"

section \<open>Properties of NCropAugmentation\<close>

lemma length_py_range: "length (py_range n) = nat n"
  by (simp add: py_range_def)

lemma state_after_0: "state_after t x 0 s = s"
  by (simp add: state_after_def)

lemma state_after_Suc: "state_after t x (Suc k) s = state_after t x k (snd (t x s))"
proof -
  define f where "f = (\<lambda>u. snd (t x u))"
  have "(f ^^ Suc k) s = (f ^^ k) (f s)"
    by (simp only: funpow_Suc_right comp_apply)
  then show ?thesis
    by (simp add: state_after_def f_def)
qed

lemma list_comp_const_Inr:
  "list_comp (\<lambda>_. t x) js s = (Inr ys, s') \<longleftrightarrow>
     length ys = length js \<and>
     (\<forall>i<length ys. fst (t x (state_after t x i s)) = Inr (ys ! i)) \<and>
     s' = state_after t x (length ys) s"
proof (induction js arbitrary: ys s)
  case Nil
  show ?case by (auto simp: state_after_0)
next
  case (Cons j js)
  obtain r s1 where tx: "t x s = (r, s1)" by (cases "t x s")
  show ?case
  proof (cases r)
    case (Inl e)
    have "\<not> (length ys = Suc (length js) \<and>
        (\<forall>i<length ys. fst (t x (state_after t x i s)) = Inr (ys ! i)))"
    proof
      assume a: "length ys = Suc (length js) \<and>
        (\<forall>i<length ys. fst (t x (state_after t x i s)) = Inr (ys ! i))"
      then have "fst (t x (state_after t x 0 s)) = Inr (ys ! 0)" by simp
      with tx Inl show False by (simp add: state_after_0)
    qed
    with tx Inl show ?thesis by auto
  next
    case (Inr y)
    show ?thesis
    proof (cases ys)
      case Nil
      with tx Inr show ?thesis by (auto split: prod.splits sum.splits)
    next
      case (Cons z zs)
      have all: "(\<forall>i<Suc (length zs). fst (t x (state_after t x i s)) = Inr ((z # zs) ! i)) \<longleftrightarrow>
          z = y \<and> (\<forall>i<length zs. fst (t x (state_after t x i s1)) = Inr (zs ! i))"
        using tx Inr by (auto simp: All_less_Suc2 state_after_0 state_after_Suc)
      have "list_comp (\<lambda>_. t x) (j # js) s = (Inr ys, s') \<longleftrightarrow>
          z = y \<and> list_comp (\<lambda>_. t x) js s1 = (Inr zs, s')"
        using tx Inr Cons by (auto split: prod.splits sum.splits)
      also have "\<dots> \<longleftrightarrow> z = y \<and> length zs = length js \<and>
          (\<forall>i<length zs. fst (t x (state_after t x i s1)) = Inr (zs ! i)) \<and>
          s' = state_after t x (length zs) s1"
        by (simp add: Cons.IH)
      finally show ?thesis
        using Cons all tx by (auto simp: state_after_Suc)
    qed
  qed
qed

text \<open>
  C2.  For a non-negative number of crops \<open>n\<close>, a call of
  \<^verbatim>\<open>NCropAugmentation(t, n)\<close> on \<open>x\<close> returns the list \<open>ys\<close> exactly when \<open>ys\<close>
  has \<open>n\<close> elements and its \<open>i\<close>-th element is what the \<open>i\<close>-th application of \<open>t\<close>
  to the same \<open>x\<close> returns: one application of \<open>t\<close> per element, each starting where
  the one before ended.  If none of these \<open>n\<close> applications raises, the call returns.
\<close>

theorem NCropAugmentation_call_n_crops:
  assumes "0 \<le> n"
  shows "(NCropAugmentation_call (NCropAugmentation_init t n) x s = (Inr ys, s') \<longleftrightarrow>
            int (length ys) = n \<and>
            (\<forall>i<length ys. fst (t x (state_after t x i s)) = Inr (ys ! i)) \<and>
            s' = state_after t x (length ys) s)
       \<and> ((\<forall>i<nat n. \<exists>y. fst (t x (state_after t x i s)) = Inr y) \<longrightarrow>
            (\<exists>zs. NCropAugmentation_call (NCropAugmentation_init t n) x s
                    = (Inr zs, state_after t x (nat n) s) \<and> int (length zs) = n))"
proof
  show "NCropAugmentation_call (NCropAugmentation_init t n) x s = (Inr ys, s') \<longleftrightarrow>
            int (length ys) = n \<and>
            (\<forall>i<length ys. fst (t x (state_after t x i s)) = Inr (ys ! i)) \<and>
            s' = state_after t x (length ys) s"
    using assms
    by (auto simp: NCropAugmentation_call_def NCropAugmentation_init_def
        list_comp_const_Inr length_py_range)
next
  show "(\<forall>i<nat n. \<exists>y. fst (t x (state_after t x i s)) = Inr y) \<longrightarrow>
            (\<exists>zs. NCropAugmentation_call (NCropAugmentation_init t n) x s
                    = (Inr zs, state_after t x (nat n) s) \<and> int (length zs) = n)"
  proof
    assume ok: "\<forall>i<nat n. \<exists>y. fst (t x (state_after t x i s)) = Inr y"
    define zs where "zs = map (\<lambda>i. projr (fst (t x (state_after t x i s)))) [0..<nat n]"
    have len: "length zs = nat n" by (simp add: zs_def)
    have "\<forall>i<length zs. fst (t x (state_after t x i s)) = Inr (zs ! i)"
      using ok by (auto simp: zs_def)
    with len have "list_comp (\<lambda>_. t x) (py_range n) s = (Inr zs, state_after t x (nat n) s)"
      by (simp add: list_comp_const_Inr length_py_range)
    with len assms show "\<exists>zs. NCropAugmentation_call (NCropAugmentation_init t n) x s
                    = (Inr zs, state_after t x (nat n) s) \<and> int (length zs) = n"
      by (auto simp: NCropAugmentation_call_def NCropAugmentation_init_def)
  qed
qed

theorem NCropAugmentation_call_n_crops_witness:
  "(0::int) \<le> 2 \<and>
   NCropAugmentation_call (NCropAugmentation_init counting_transform 2) 5 0 = (Inr [5, 6], 2)"
proof -
  have st: "state_after counting_transform 5 k 0 = k" for k
    by (induction k) (simp_all add: state_after_def counting_transform_def)
  have "\<forall>i<length [5, 6 :: nat].
      fst (counting_transform 5 (state_after counting_transform 5 i 0)) = Inr ([5, 6] ! i)"
    by (simp add: st counting_transform_def All_less_Suc numeral_2_eq_2)
  then show ?thesis
    using NCropAugmentation_call_n_crops [of 2 counting_transform 5 0 "[5, 6]" 2]
    by (simp add: st)
qed

section \<open>Properties of the N-crop pipeline\<close>

lemma append_each_eq:
  "append_each zs T = T @ map (\<lambda>(t, n). NCropAugmentation_init t n) zs"
  by (induction zs T rule: append_each.induct) simp_all

lemma zip_as_indices:
  "length T = length N \<Longrightarrow>
     map (\<lambda>(t, n). NCropAugmentation_init t n) (zip T N)
       = map (\<lambda>i. NCropAugmentation_init (T ! i) (N ! i)) [0..<length T]"
  by (rule nth_equalityI) simp_all

lemma list_comp_map: "list_comp f (map g xs) s = list_comp (\<lambda>i. f (g i)) xs s"
  by (induction xs arbitrary: s) (simp_all split: prod.splits sum.splits)

lemma extend_each_eq:
  "extend_each cs x out s =
     (case list_comp (\<lambda>c. NCropAugmentation_call c x) cs s of
        (Inl e, s1) \<Rightarrow> (Inl e, s1)
      | (Inr yss, s1) \<Rightarrow> (Inr (out @ concat yss), s1))"
  by (induction cs arbitrary: out s) (simp_all split: prod.splits sum.splits)

lemma NCropAugmentation_call_length:
  "NCropAugmentation_call c x s = (Inr ys, s') \<Longrightarrow> length ys = nat (num_crops c)"
  by (simp add: NCropAugmentation_call_def list_comp_const_Inr length_py_range)

lemma list_comp_crop_lengths:
  "list_comp (\<lambda>i. NCropAugmentation_call (NCropAugmentation_init (T ! i) (N ! i)) x) js s
      = (Inr yss, s')
   \<Longrightarrow> map length yss = map (\<lambda>i. nat (N ! i)) js"
proof (induction js arbitrary: yss s)
  case Nil
  then show ?case by simp
next
  case (Cons j js)
  then show ?case
    by (auto split: prod.splits sum.splits dest!: NCropAugmentation_call_length
        simp: NCropAugmentation_init_def)
qed

lemma n_crop_transform_call_eq:
  assumes "length T = length N"
  shows "n_crop_transform_call T N x s = crops_concatenated T N x s"
  using assms
  by (simp add: n_crop_transform_call_def prepare_n_crop_transform_def
      FullTransformPipeline_call_def FullTransformPipeline_init_def append_each_eq
      zip_as_indices extend_each_eq list_comp_map crops_concatenated_def
      split: prod.splits sum.splits)

lemma crops_concatenated_length:
  assumes "length T = length N" and "crops_concatenated T N x s = (Inr out, s')"
  shows "length out = sum_list (map nat N)"
proof -
  from assms(2) obtain yss where
    run: "list_comp (\<lambda>i. NCropAugmentation_call (NCropAugmentation_init (T ! i) (N ! i)) x)
            [0..<length T] s = (Inr yss, s')"
    and out: "out = concat yss"
    by (auto simp: crops_concatenated_def split: prod.splits sum.splits)
  have "map length yss = map (\<lambda>i. nat (N ! i)) [0..<length N]"
    using list_comp_crop_lengths [OF run] assms(1) by simp
  also have "\<dots> = map nat N"
    by (rule nth_equalityI) simp_all
  finally show ?thesis
    by (simp add: out length_concat)
qed

lemma sum_list_nat_nonneg:
  "\<forall>n\<in>set N. 0 \<le> n \<Longrightarrow> int (sum_list (map nat N)) = sum_list N"
  by (induction N) simp_all

text \<open>
  C1.  For transforms \<open>T\<close> and crop counts \<open>N\<close> of equal length, calling the pipeline of
  \<^verbatim>\<open>prepare_n_crop_transform(T, N)\<close> on \<open>x\<close> is the concatenation, in order, of the
  outputs of \<^verbatim>\<open>NCropAugmentation(T[i], N[i])(x)\<close>, state and exceptions included; the
  list it returns has \<open>sum(N)\<close> elements, a count being a number that is not negative.
\<close>

theorem n_crop_transform_call_concatenates:
  assumes "length T = length N"
  shows "n_crop_transform_call T N x s = crops_concatenated T N x s
       \<and> (n_crop_transform_call T N x s = (Inr out, s') \<longrightarrow>
            length out = sum_list (map nat N)
            \<and> ((\<forall>n\<in>set N. 0 \<le> n) \<longrightarrow> int (length out) = sum_list N))"
proof -
  have eq: "n_crop_transform_call T N x s = crops_concatenated T N x s"
    by (rule n_crop_transform_call_eq [OF assms])
  have "length out = sum_list (map nat N)"
    if "n_crop_transform_call T N x s = (Inr out, s')"
    using that eq crops_concatenated_length [OF assms] by simp
  then show ?thesis
    using eq sum_list_nat_nonneg [of N] by auto
qed

theorem n_crop_transform_call_concatenates_witness:
  "length [counting_transform, counting_transform] = length [2, 1 :: int]
   \<and> n_crop_transform_call [counting_transform, counting_transform] [2, 1] 5 0
       = (Inr [5, 6, 7], 3)
   \<and> length [5, 6, 7 :: nat] = sum_list (map nat [2, 1])
   \<and> int (length [5, 6, 7 :: nat]) = sum_list [2, 1]"
proof -
  have run: "n_crop_transform_call [counting_transform, counting_transform] [2, 1] 5 0
       = (Inr [5, 6, 7], 3)"
    by (simp add: n_crop_transform_call_def prepare_n_crop_transform_def
        FullTransformPipeline_call_def FullTransformPipeline_init_def
        NCropAugmentation_call_def NCropAugmentation_init_def py_range_def
        upto.simps counting_transform_def)
  show ?thesis
    using n_crop_transform_call_concatenates
      [of "[counting_transform, counting_transform]" "[2, 1]" 5 0 "[5, 6, 7]" 3] run
    by simp
qed

text \<open>
  C4.  \<^verbatim>\<open>prepare_n_crop_transform\<close> fails its assertion exactly when the two lists
  differ in length; with lists of equal length it returns a pipeline, holding one
  \<^verbatim>\<open>NCropAugmentation\<close> per pair, and it raises nothing else.
\<close>

theorem prepare_n_crop_transform_assertion:
  "(prepare_n_crop_transform T N = Inl AssertionError \<longleftrightarrow> length T \<noteq> length N)
   \<and> (length T = length N \<longrightarrow>
        (\<exists>p. prepare_n_crop_transform T N = Inr p \<and> length (transforms p) = length T))
   \<and> (\<forall>e. prepare_n_crop_transform T N = Inl e \<longrightarrow> e = AssertionError)"
  by (simp add: prepare_n_crop_transform_def FullTransformPipeline_init_def append_each_eq)

theorem prepare_n_crop_transform_assertion_witness:
  "length [counting_transform] = length [2 :: int]
   \<and> prepare_n_crop_transform [counting_transform] [2] \<noteq> Inl AssertionError
   \<and> prepare_n_crop_transform [counting_transform] [2, 3] = Inl AssertionError"
  using prepare_n_crop_transform_assertion [of "[counting_transform]" "[2]"]
    prepare_n_crop_transform_assertion [of "[counting_transform]" "[2, 3]"]
  by simp

section \<open>Properties of the dataset wrappers\<close>

text \<open>
  C7.  The item of the class made by \<^verbatim>\<open>dataset_with_index\<close> at an index is the index
  followed by the components of the wrapped class's item there, unchanged and in
  order; what the wrapped \<^verbatim>\<open>__getitem__\<close> raises, the wrapper raises.
\<close>

theorem dataset_with_index_getitem:
  "(getitem i s = (Inr data, s') \<longrightarrow>
      dataset_with_index getitem i s = (Inr (i # data), s'))
   \<and> (getitem i s = (Inl e, s') \<longrightarrow> dataset_with_index getitem i s = (Inl e, s'))
   \<and> (dataset_with_index getitem i s = (Inr item, s') \<longrightarrow>
        item \<noteq> [] \<and> hd item = i \<and> getitem i s = (Inr (tl item), s'))"
  by (auto simp: dataset_with_index_def split: prod.splits sum.splits)

theorem dataset_with_index_getitem_witness:
  "example_getitem 2 0 = (Inr [20, 1], 0)
   \<and> dataset_with_index example_getitem 2 0 = (Inr [2, 20, 1], 0)
   \<and> example_getitem 5 0 = (Inl IndexError, 0)
   \<and> dataset_with_index example_getitem 5 0 = (Inl IndexError, 0)"
proof -
  have ok: "example_getitem 2 0 = (Inr [20, 1], 0)"
    by (simp add: example_getitem_def)
  have bad: "example_getitem 5 0 = (Inl IndexError, 0)"
    by (simp add: example_getitem_def)
  have "dataset_with_index example_getitem 2 0 = (Inr [2, 20, 1], 0)"
    using dataset_with_index_getitem [of example_getitem 2 0 "[20, 1]" 0] ok by blast
  moreover have "dataset_with_index example_getitem 5 0 = (Inl IndexError, 0)"
    using dataset_with_index_getitem [of example_getitem 5 0 "[]" 0 IndexError] bad by blast
  ultimately show ?thesis
    using ok bad by blast
qed

lemma list_getitem_valid:
  assumes "- int (length xs) \<le> i" and "i < int (length xs)"
  shows "\<exists>x. list_getitem xs i = Inr x \<and> x \<in> set xs"
proof (cases "0 \<le> i")
  case True
  with assms show ?thesis by (simp add: list_getitem_def)
next
  case False
  with assms have "nat (int (length xs) + i) < length xs" by simp
  with False assms show ?thesis by (simp add: list_getitem_def)
qed

text \<open>
  C8.  Whatever \<^verbatim>\<open>__getitem__\<close> of a \<^verbatim>\<open>CustomDatasetWithoutLabels\<close> returns is a
  pair with the label \<open>-1\<close>; at a valid index it picks a listed name, and returns once
  the image is read (and transformed, when there is a transform).  \<^verbatim>\<open>__len__\<close> is the
  number of names that \<^verbatim>\<open>os.listdir(root)\<close> gave to \<^verbatim>\<open>__init__\<close>.
\<close>

theorem CustomDatasetWithoutLabels_items:
  "(CustomDatasetWithoutLabels_getitem open_rgb d i s = (Inr (x, l), s') \<longrightarrow> l = - 1)
   \<and> (- CustomDatasetWithoutLabels_len d \<le> i \<and> i < CustomDatasetWithoutLabels_len d \<longrightarrow>
        (\<exists>name. list_getitem (images d) i = Inr name \<and> name \<in> set (images d) \<and>
           (\<forall>img s1. open_rgb (PathDiv (root d) name) s = (Inr img, s1) \<longrightarrow>
              (transform d = None \<longrightarrow>
                 CustomDatasetWithoutLabels_getitem open_rgb d i s = (Inr (img, - 1), s1)) \<and>
              (\<forall>t y s2. transform d = Some t \<and> t img s1 = (Inr y, s2) \<longrightarrow>
                 CustomDatasetWithoutLabels_getitem open_rgb d i s = (Inr (y, - 1), s2)))))
   \<and> (listdir r s = (Inr names, s1) \<longrightarrow>
        (\<exists>d0. CustomDatasetWithoutLabels_init listdir r t s = (Inr d0, s1) \<and>
           CustomDatasetWithoutLabels_len d0 = int (length names)))"
proof (intro conjI impI)
  assume "CustomDatasetWithoutLabels_getitem open_rgb d i s = (Inr (x, l), s')"
  then show "l = - 1"
    by (auto simp: CustomDatasetWithoutLabels_getitem_def
        split: sum.splits prod.splits option.splits)
next
  assume "- CustomDatasetWithoutLabels_len d \<le> i \<and> i < CustomDatasetWithoutLabels_len d"
  then obtain name where n: "list_getitem (images d) i = Inr name" "name \<in> set (images d)"
    using list_getitem_valid [of "images d" i]
    by (auto simp: CustomDatasetWithoutLabels_len_def)
  then show "\<exists>name. list_getitem (images d) i = Inr name \<and> name \<in> set (images d) \<and>
           (\<forall>img s1. open_rgb (PathDiv (root d) name) s = (Inr img, s1) \<longrightarrow>
              (transform d = None \<longrightarrow>
                 CustomDatasetWithoutLabels_getitem open_rgb d i s = (Inr (img, - 1), s1)) \<and>
              (\<forall>t y s2. transform d = Some t \<and> t img s1 = (Inr y, s2) \<longrightarrow>
                 CustomDatasetWithoutLabels_getitem open_rgb d i s = (Inr (y, - 1), s2)))"
    by (auto simp: CustomDatasetWithoutLabels_getitem_def)
next
  assume "listdir r s = (Inr names, s1)"
  then show "\<exists>d0. CustomDatasetWithoutLabels_init listdir r t s = (Inr d0, s1) \<and>
           CustomDatasetWithoutLabels_len d0 = int (length names)"
    by (simp add: CustomDatasetWithoutLabels_init_def CustomDatasetWithoutLabels_len_def)
qed

theorem CustomDatasetWithoutLabels_items_witness:
  "CustomDatasetWithoutLabels_init example_listdir ''data'' None 0 = (Inr example_dataset, 0)
   \<and> CustomDatasetWithoutLabels_len example_dataset = 3
   \<and> CustomDatasetWithoutLabels_getitem example_open example_dataset (- 1) 0 = (Inr (7, - 1), 1)"
proof -
  have len: "CustomDatasetWithoutLabels_len example_dataset = 3"
    by (simp add: CustomDatasetWithoutLabels_len_def example_dataset_def)
  have name: "list_getitem (images example_dataset) (- 1) = Inr ''c.png''"
    by (simp add: list_getitem_def example_dataset_def)
  have "example_listdir ''data'' 0 = (Inr [''a.png'', ''b.png'', ''c.png''], 0)"
    by (simp add: example_listdir_def)
  moreover have "example_open (PathDiv (root example_dataset) ''c.png'') 0 = (Inr 7, 1)"
    by (simp add: example_open_def)
  moreover have "transform example_dataset = None"
    by (simp add: example_dataset_def)
  ultimately show ?thesis
    using CustomDatasetWithoutLabels_items
      [of example_open example_dataset "- 1" 0 7 "- 1" 1 example_listdir "''data''"
         "[''a.png'', ''b.png'', ''c.png'']" 0 None] len name
    by (auto simp: CustomDatasetWithoutLabels_init_def example_dataset_def)
qed

section \<open>Properties of the pipeline factory\<close>

lemma first_error_None_iff:
  "first_error lib cs = None \<longleftrightarrow> (\<forall>c\<in>set cs. lib c = None)"
  by (induction cs) (auto split: option.splits)


lemma imagenet_pipelines_eq:
  "imagenet_pipelines lib a =
     (case first_error lib (constructor_calls a) of
        Some e \<Rightarrow> Inl e
      | None \<Rightarrow>
          Inr [(''image'',
               [RandomResizedCropRGBImageDecoder (crop_size a, crop_size a)
                  (min_scale a, max_scale a),
                RandomApply [ColorJitter (brightness a) (contrast a) (saturation a) (hue a)]
                  (color_jitter_prob a),
                RandomGrayscale (gray_scale_prob a),
                RandomApply [GaussianBlur] (gaussian_prob a),
                RandomApply [Solarization] (solarization_prob a),
                RandomHorizontalFlip (horizontal_flip_prob a),
                ToTensor,
                ToDevice (device a) True,
                ToTorchImage,
                NormalizeImage (0.485, 0.456, 0.406) (0.228, 0.224, 0.225) np_float16]),
            (''label'', [IntDecoder, ToTensor, Squeeze, ToDevice (device a) True])])"
  by (simp add: imagenet_pipelines_def constructor_calls_def construct_def and_then_def
      split: option.splits)

lemma imagenet_pipelines_Inr:
  "imagenet_pipelines lib a = Inr dict \<longleftrightarrow>
     first_error lib (constructor_calls a) = None \<and>
     dict = [(''image'',
               [RandomResizedCropRGBImageDecoder (crop_size a, crop_size a)
                  (min_scale a, max_scale a),
                RandomApply [ColorJitter (brightness a) (contrast a) (saturation a) (hue a)]
                  (color_jitter_prob a),
                RandomGrayscale (gray_scale_prob a),
                RandomApply [GaussianBlur] (gaussian_prob a),
                RandomApply [Solarization] (solarization_prob a),
                RandomHorizontalFlip (horizontal_flip_prob a),
                ToTensor,
                ToDevice (device a) True,
                ToTorchImage,
                NormalizeImage (0.485, 0.456, 0.406) (0.228, 0.224, 0.225) np_float16]),
            (''label'', [IntDecoder, ToTensor, Squeeze, ToDevice (device a) True])]"
  by (auto simp: imagenet_pipelines_eq split: option.splits)

lemma imagenet_pipelines_Inl:
  "imagenet_pipelines lib a = Inl e \<longleftrightarrow> first_error lib (constructor_calls a) = Some e"
  by (auto simp: imagenet_pipelines_eq split: option.splits)

text \<open>
  C5, as amended.  Whenever \<^verbatim>\<open>imagenet_pipelines\<close> returns, it returns the dictionary
  with the keys \<^verbatim>\<open>image\<close> and \<^verbatim>\<open>label\<close> and no other; the image pipeline has 10
  steps, from \<^verbatim>\<open>RandomResizedCropRGBImageDecoder\<close> to \<^verbatim>\<open>NormalizeImage\<close>, the label
  pipeline is \<^verbatim>\<open>IntDecoder, ToTensor, Squeeze, ToDevice\<close>; the parameters are the
  arguments of these steps and change neither their classes nor their number nor
  their order.  It returns exactly when none of its constructor calls raises, and
  otherwise raises what the first of them raises.
\<close>

theorem imagenet_pipelines_fixed_steps:
  "(imagenet_pipelines lib a = Inr dict \<longrightarrow>
      dict = [(''image'',
               [RandomResizedCropRGBImageDecoder (crop_size a, crop_size a)
                  (min_scale a, max_scale a),
                RandomApply [ColorJitter (brightness a) (contrast a) (saturation a) (hue a)]
                  (color_jitter_prob a),
                RandomGrayscale (gray_scale_prob a),
                RandomApply [GaussianBlur] (gaussian_prob a),
                RandomApply [Solarization] (solarization_prob a),
                RandomHorizontalFlip (horizontal_flip_prob a),
                ToTensor,
                ToDevice (device a) True,
                ToTorchImage,
                NormalizeImage (0.485, 0.456, 0.406) (0.228, 0.224, 0.225) np_float16]),
            (''label'', [IntDecoder, ToTensor, Squeeze, ToDevice (device a) True])]
      \<and> map fst dict = [''image'', ''label'']
      \<and> (\<exists>image_pipeline label_pipeline.
           dict = [(''image'', image_pipeline), (''label'', label_pipeline)]
           \<and> length image_pipeline = 10
           \<and> step_name (hd image_pipeline) = ''RandomResizedCropRGBImageDecoder''
           \<and> step_name (last image_pipeline) = ''NormalizeImage''
           \<and> map step_name image_pipeline =
              [''RandomResizedCropRGBImageDecoder'', ''RandomApply'', ''RandomGrayscale'',
               ''RandomApply'', ''RandomApply'', ''RandomHorizontalFlip'', ''ToTensor'',
               ''ToDevice'', ''ToTorchImage'', ''NormalizeImage'']
           \<and> map step_name label_pipeline =
              [''IntDecoder'', ''ToTensor'', ''Squeeze'', ''ToDevice'']))
   \<and> ((\<exists>returned. imagenet_pipelines lib a = Inr returned)
        \<longleftrightarrow> (\<forall>c\<in>set (constructor_calls a). lib c = None))
   \<and> (imagenet_pipelines lib a = Inl e \<longleftrightarrow> first_error lib (constructor_calls a) = Some e)
   \<and> (imagenet_pipelines lib a = Inr dict \<and> imagenet_pipelines lib2 b = Inr dict2 \<longrightarrow>
        map (\<lambda>(k, steps). (k, map step_name steps)) dict
          = map (\<lambda>(k, steps). (k, map step_name steps)) dict2)"
proof (intro conjI impI)
  assume r: "imagenet_pipelines lib a = Inr dict"
  then show d: "dict = [(''image'',
               [RandomResizedCropRGBImageDecoder (crop_size a, crop_size a)
                  (min_scale a, max_scale a),
                RandomApply [ColorJitter (brightness a) (contrast a) (saturation a) (hue a)]
                  (color_jitter_prob a),
                RandomGrayscale (gray_scale_prob a),
                RandomApply [GaussianBlur] (gaussian_prob a),
                RandomApply [Solarization] (solarization_prob a),
                RandomHorizontalFlip (horizontal_flip_prob a),
                ToTensor,
                ToDevice (device a) True,
                ToTorchImage,
                NormalizeImage (0.485, 0.456, 0.406) (0.228, 0.224, 0.225) np_float16]),
            (''label'', [IntDecoder, ToTensor, Squeeze, ToDevice (device a) True])]"
    by (simp add: imagenet_pipelines_Inr)
  then show "map fst dict = [''image'', ''label'']"
    by simp
  from d show "\<exists>image_pipeline label_pipeline.
           dict = [(''image'', image_pipeline), (''label'', label_pipeline)]
           \<and> length image_pipeline = 10
           \<and> step_name (hd image_pipeline) = ''RandomResizedCropRGBImageDecoder''
           \<and> step_name (last image_pipeline) = ''NormalizeImage''
           \<and> map step_name image_pipeline =
              [''RandomResizedCropRGBImageDecoder'', ''RandomApply'', ''RandomGrayscale'',
               ''RandomApply'', ''RandomApply'', ''RandomHorizontalFlip'', ''ToTensor'',
               ''ToDevice'', ''ToTorchImage'', ''NormalizeImage'']
           \<and> map step_name label_pipeline =
              [''IntDecoder'', ''ToTensor'', ''Squeeze'', ''ToDevice'']"
    by simp
next
  show "(\<exists>returned. imagenet_pipelines lib a = Inr returned)
        \<longleftrightarrow> (\<forall>c\<in>set (constructor_calls a). lib c = None)"
    by (simp add: imagenet_pipelines_Inr first_error_None_iff)
next
  show "imagenet_pipelines lib a = Inl e \<longleftrightarrow> first_error lib (constructor_calls a) = Some e"
    by (rule imagenet_pipelines_Inl)
next
  assume "imagenet_pipelines lib a = Inr dict \<and> imagenet_pipelines lib2 b = Inr dict2"
  then show "map (\<lambda>(k, steps). (k, map step_name steps)) dict
          = map (\<lambda>(k, steps). (k, map step_name steps)) dict2"
    by (simp add: imagenet_pipelines_Inr)
qed

theorem imagenet_pipelines_fixed_steps_witness:
  "\<exists>dict. imagenet_pipelines permissive_library example_args = Inr dict
     \<and> map fst dict = [''image'', ''label'']
     \<and> length (snd (hd dict)) = 10"
proof -
  have "\<forall>c\<in>set (constructor_calls example_args). permissive_library c = None"
    by (simp add: permissive_library_def)
  then obtain dict where r: "imagenet_pipelines permissive_library example_args = Inr dict"
    using imagenet_pipelines_fixed_steps [of permissive_library example_args] by blast
  then have "map fst dict = [''image'', ''label''] \<and> length (snd (hd dict)) = 10"
    using imagenet_pipelines_fixed_steps [of permissive_library example_args dict] by auto
  with r show ?thesis by (intro exI [of _ dict]) simp
qed

text \<open>
  The statement that \<^verbatim>\<open>imagenet_pipelines\<close> returns for every setting of its
  parameters fails where a constructor rejects its arguments: with a
  \<^verbatim>\<open>ColorJitter\<close> that accepts a hue up to 0.5, a hue of 0.6 raises.
\<close>

theorem imagenet_pipelines_constructor_raises:
  "imagenet_pipelines checking_library (example_args\<lparr>hue := PyFloat 0.6\<rparr>)
     = Inl (ValueError ''hue out of range'')"
  by (simp add: imagenet_pipelines_def construct_def and_then_def example_args_def)








section \<open>Properties of prepare\_dataloader\<close>

text \<open>
  C6.  \<^verbatim>\<open>prepare_dataloader\<close> is one call of \<^verbatim>\<open>Loader\<close>, whose result it returns; the
  call receives the dataset path, the pipelines, the batch size, the number of
  workers and the distributed flag as they were passed (or their defaults), and
  \<^verbatim>\<open>fit_mem\<close> as \<^verbatim>\<open>os_cache\<close>.
\<close>

theorem prepare_dataloader_forwards:
  "prepare_dataloader Loader f p bs nw d fm = Loader (prepare_dataloader (\<lambda>a. a) f p bs nw d fm)
   \<and> fname (prepare_dataloader (\<lambda>a. a) f p bs nw d fm) = f
   \<and> pipelines (prepare_dataloader (\<lambda>a. a) f p bs nw d fm) = p
   \<and> batch_size (prepare_dataloader (\<lambda>a. a) f p (Some b) nw d fm) = b
   \<and> num_workers (prepare_dataloader (\<lambda>a. a) f p bs (Some w) d fm) = w
   \<and> distributed (prepare_dataloader (\<lambda>a. a) f p bs nw (Some dflag) fm) = dflag
   \<and> os_cache (prepare_dataloader (\<lambda>a. a) f p bs nw d (Some m)) = m
   \<and> batch_size (prepare_dataloader (\<lambda>a. a) f p None nw d fm) = 64
   \<and> num_workers (prepare_dataloader (\<lambda>a. a) f p bs None d fm) = 4
   \<and> distributed (prepare_dataloader (\<lambda>a. a) f p bs nw None fm) = False
   \<and> os_cache (prepare_dataloader (\<lambda>a. a) f p bs nw d None) = False"
  by (simp add: prepare_dataloader_def arg_or_def Let_def split: option.splits)

text \<open>
  C9.  The \<^verbatim>\<open>Loader\<close> is always made with \<^verbatim>\<open>drop_last=True\<close>, and its order is
  \<^verbatim>\<open>OrderOption.RANDOM\<close> exactly when \<^verbatim>\<open>distributed\<close> is true (false being its
  default), \<^verbatim>\<open>OrderOption.QUASI_RANDOM\<close> otherwise.
\<close>

theorem prepare_dataloader_order:
  "prepare_dataloader Loader f p bs nw d fm = Loader (prepare_dataloader (\<lambda>a. a) f p bs nw d fm)
   \<and> drop_last (prepare_dataloader (\<lambda>a. a) f p bs nw d fm)
   \<and> (order (prepare_dataloader (\<lambda>a. a) f p bs nw d fm) = RANDOM \<longleftrightarrow> arg_or d False)
   \<and> (order (prepare_dataloader (\<lambda>a. a) f p bs nw d fm) = QUASI_RANDOM \<longleftrightarrow> \<not> arg_or d False)
   \<and> order (prepare_dataloader (\<lambda>a. a) f p bs nw (Some True) fm) = RANDOM
   \<and> order (prepare_dataloader (\<lambda>a. a) f p bs nw (Some False) fm) = QUASI_RANDOM
   \<and> order (prepare_dataloader (\<lambda>a. a) f p bs nw None fm) = QUASI_RANDOM"
  by (simp add: prepare_dataloader_def arg_or_def Let_def split: option.splits)

end
